theory Spec2Isabelle
  imports Complex_Main "HOL-Library.AList" "HOL-Library.Multiset"
begin

section \<open>Strings as the routes read them\<close>

text \<open>
  JavaScript strings are modelled as \<^typ>\<open>string\<close>. Case folding
  (\<^verbatim>\<open>toLowerCase\<close>) acts on the letters A to Z; the character class
  \<^verbatim>\<open>[^a-z0-9]\<close> is the complement of the 36 listed characters.
\<close>

definition toLowerCase :: "string \<Rightarrow> string" where
  "toLowerCase s =
     map (\<lambda>c. case map_of (zip ''ABCDEFGHIJKLMNOPQRSTUVWXYZ'' ''abcdefghijklmnopqrstuvwxyz'') c of
                 Some d \<Rightarrow> d | None \<Rightarrow> c) s"

definition is_a_z_0_9 :: "char \<Rightarrow> bool" where
  "is_a_z_0_9 c = (c \<in> set ''abcdefghijklmnopqrstuvwxyz0123456789'')"

text \<open>\<^verbatim>\<open>author.toLowerCase().replace(/[^a-z0-9]/g, '')\<close>, the normalized translator ID.\<close>

definition normalizeId :: "string \<Rightarrow> string" where
  "normalizeId author = filter is_a_z_0_9 (toLowerCase author)"

text \<open>
  \<^verbatim>\<open>String.prototype.trim\<close> and \<^verbatim>\<open>split(',')\<close>. White space is the
  ASCII white space (space, tab, line feed, vertical tab, form feed, carriage return).
\<close>

definition js_whitespace :: "char \<Rightarrow> bool" where
  "js_whitespace c = (c \<in> set [CHR '' '', CHR 0x09, CHR 0x0A, CHR 0x0B, CHR 0x0C, CHR 0x0D])"

definition trim :: "string \<Rightarrow> string" where
  "trim s = rev (dropWhile js_whitespace (rev (dropWhile js_whitespace s)))"

fun split :: "char \<Rightarrow> string \<Rightarrow> string list" where
  "split sep [] = [[]]"
| "split sep (c # cs) =
     (if c = sep then [] # split sep cs
      else (case split sep cs of [] \<Rightarrow> [[c]] | p # ps \<Rightarrow> (c # p) # ps))"

section \<open>The couplet documents\<close>

text \<open>
  A translation record \<^verbatim>\<open>{text, explanation?, author, year}\<close>; an interpretation
  record \<^verbatim>\<open>{text, author, year}\<close> is the same record without an explanation.
  The field \<open>text'\<close> is the record's \<^verbatim>\<open>text\<close>. The document schema requires
  \<^verbatim>\<open>text\<close> and \<^verbatim>\<open>author\<close> and leaves \<^verbatim>\<open>explanation\<close> and
  \<^verbatim>\<open>year\<close> optional.
\<close>

record translation =
  text' :: string
  explanation :: "string option"
  author :: string
  year :: "int option"

text \<open>
  A stored document. \<open>translations'\<close> is the property \<^verbatim>\<open>translations\<close>, an
  object from language code to an array of translation records, kept as an association
  list in the order \<^verbatim>\<open>Object.entries\<close> enumerates it; \<open>None\<close> is an absent
  property. The three numbers are \<^verbatim>\<open>division.number\<close>,
  \<^verbatim>\<open>section.number\<close> and \<^verbatim>\<open>chapter.number\<close>. The fields no route reads
  (names, keywords, metadata) are left out.
\<close>

record couplet =
  number :: int
  tamil :: "string list"
  division_number :: int
  section_number :: int
  chapter_number :: int
  translations' :: "(string \<times> translation list) list option"
  tamil_interpretations :: "translation list option"

section \<open>The translator projection\<close>

text \<open>
  \<^verbatim>\<open>filterTranslations(couplet, translatorIds)\<close>. The second argument is
  \<^verbatim>\<open>None\<close> when it is undefined or null. Assigning
  \<^verbatim>\<open>filteredTranslations[lang]\<close> appends a new key or overwrites an old one in place,
  which is \<^const>\<open>AList.update\<close>.
\<close>

definition author_allowed :: "string list \<Rightarrow> translation \<Rightarrow> bool" where
  "author_allowed translatorIds t = (normalizeId (author t) \<in> set translatorIds)"

definition filterTranslations :: "couplet \<Rightarrow> string list option \<Rightarrow> couplet" where
  "filterTranslations couplet translatorIds =
     (case translatorIds of
        None \<Rightarrow> couplet
      | Some ids \<Rightarrow>
          if length ids = 0 then couplet
          else
            let filtered = couplet;
                filtered =
                  (case translations' filtered of
                     None \<Rightarrow> filtered
                   | Some entries \<Rightarrow>
                       filtered\<lparr>translations' :=
                         Some (foldl (\<lambda>filteredTranslations (lang, ts).
                                 let langFiltered = filter (author_allowed ids) ts
                                 in if length langFiltered > 0
                                    then AList.update lang langFiltered filteredTranslations
                                    else filteredTranslations) [] entries)\<rparr>);
                filtered =
                  (case tamil_interpretations filtered of
                     None \<Rightarrow> filtered
                   | Some interps \<Rightarrow>
                       filtered\<lparr>tamil_interpretations :=
                         Some (filter (author_allowed ids) interps)\<rparr>)
            in filtered)"

section \<open>Arrays: sort and slice\<close>

text \<open>
  \<^verbatim>\<open>Array.prototype.sort(cmp)\<close> is a stable sort. The comparator's number is what the
  sort reads: negative puts the first argument first, and a result of NaN counts as 0.
  The model inserts each element, from the right, before the first element it does not
  come after; for a consistent comparator that is the stable sorted order.
\<close>

fun js_insert :: "('a \<Rightarrow> 'a \<Rightarrow> int) \<Rightarrow> 'a \<Rightarrow> 'a list \<Rightarrow> 'a list" where
  "js_insert cmp x [] = [x]"
| "js_insert cmp x (y # ys) = (if cmp x y \<le> 0 then x # y # ys else y # js_insert cmp x ys)"

definition js_sort :: "('a \<Rightarrow> 'a \<Rightarrow> int) \<Rightarrow> 'a list \<Rightarrow> 'a list" where
  "js_sort cmp xs = foldr (js_insert cmp) xs []"

text \<open>
  \<^verbatim>\<open>Array.prototype.slice(start, end)\<close> on integers: a negative index counts from the
  end, and both are clamped to the array.
\<close>

definition js_slice :: "'a list \<Rightarrow> int \<Rightarrow> int \<Rightarrow> 'a list" where
  "js_slice xs start fin =
     (let len = int (length xs);
          k = (if start < 0 then max (len + start) 0 else min start len);
          final = (if fin < 0 then max (len + fin) 0 else min fin len)
      in take (nat (final - k)) (drop (nat k) xs))"

section \<open>Numbers in query strings\<close>

text \<open>
  \<^verbatim>\<open>parseInt(s)\<close> with no radix: leading white space, an optional sign, then the longest
  prefix of digits (hexadecimal digits after \<^verbatim>\<open>0x\<close>); \<^verbatim>\<open>None\<close> is NaN.
\<close>

definition is_digit :: "char \<Rightarrow> bool" where
  "is_digit c = (c \<in> set ''0123456789'')"

definition digit_value :: "char \<Rightarrow> int" where
  "digit_value c =
     (case map_of (zip ''0123456789abcdef'' (map int [0..<16])
                   @ zip ''ABCDEF'' (map int [10..<16])) c of
        Some v \<Rightarrow> v | None \<Rightarrow> 0)"

definition is_hex_digit :: "char \<Rightarrow> bool" where
  "is_hex_digit c = (c \<in> set ''0123456789abcdefABCDEF'')"

definition digits_value :: "int \<Rightarrow> string \<Rightarrow> int" where
  "digits_value radix ds = foldl (\<lambda>acc c. radix * acc + digit_value c) 0 ds"

definition parse_magnitude :: "string \<Rightarrow> int option" where
  "parse_magnitude s =
     (if take 2 s = ''0x'' \<or> take 2 s = ''0X''
      then (let ds = takeWhile is_hex_digit (drop 2 s)
            in if ds = [] then None else Some (digits_value 16 ds))
      else (let ds = takeWhile is_digit s
            in if ds = [] then None else Some (digits_value 10 ds)))"

definition parseInt :: "string option \<Rightarrow> int option" where
  "parseInt v =
     (case v of
        None \<Rightarrow> None
      | Some s \<Rightarrow>
          (case dropWhile js_whitespace s of
             [] \<Rightarrow> None
           | c # cs \<Rightarrow>
               if c = CHR ''-'' then map_option uminus (parse_magnitude cs)
               else if c = CHR ''+'' then parse_magnitude cs
               else parse_magnitude (c # cs)))"

text \<open>\<^verbatim>\<open>parseInt(v) || d\<close>: NaN and 0 are falsy.\<close>

definition or_default :: "int option \<Rightarrow> int \<Rightarrow> int" where
  "or_default v d = (case v of None \<Rightarrow> d | Some n \<Rightarrow> if n = 0 then d else n)"

text \<open>
  The validator library's \<^verbatim>\<open>isInt(str, {min, max})\<close>: the string matches
  \<^verbatim>\<open>/^[-+]?[0-9]+$/\<close> and, read as a number, lies within the bounds given.
\<close>

definition int_pattern :: "string \<Rightarrow> bool" where
  "int_pattern s =
     (case s of
        [] \<Rightarrow> False
      | c # cs \<Rightarrow>
          if c = CHR ''-'' \<or> c = CHR ''+'' then cs \<noteq> [] \<and> list_all is_digit cs
          else list_all is_digit (c # cs))"

definition to_number :: "string \<Rightarrow> int" where
  "to_number s =
     (case s of
        [] \<Rightarrow> 0
      | c # cs \<Rightarrow>
          if c = CHR ''-'' then - digits_value 10 cs
          else if c = CHR ''+'' then digits_value 10 cs
          else digits_value 10 (c # cs))"

definition isInt :: "int option \<Rightarrow> int option \<Rightarrow> string \<Rightarrow> bool" where
  "isInt min_opt max_opt str =
     (int_pattern str
      \<and> (case min_opt of None \<Rightarrow> True | Some m \<Rightarrow> m \<le> to_number str)
      \<and> (case max_opt of None \<Rightarrow> True | Some m \<Rightarrow> to_number str \<le> m))"

section \<open>Request validation\<close>

text \<open>
  A JavaScript value: undefined, a number, a string or an array. One entry of the
  \<^verbatim>\<open>details\<close> array of a refused request names the field, the message and the
  value refused. A chain marked \<^verbatim>\<open>optional()\<close> is skipped when the parameter is
  absent.
\<close>

datatype jsvalue = JUndefined | JNumber int | JString string | JArray "jsvalue list"

record validation_error =
  field :: string
  message :: string
  val :: jsvalue

definition check_int ::
  "string \<Rightarrow> int option \<Rightarrow> int option \<Rightarrow> string \<Rightarrow> string option \<Rightarrow> validation_error list" where
  "check_int name min_opt max_opt msg v =
     (case v of
        None \<Rightarrow> []
      | Some s \<Rightarrow> if isInt min_opt max_opt s then []
                  else [\<lparr>field = name, message = msg, val = JString s\<rparr>])"

definition validateCoupletNumber :: "string \<Rightarrow> validation_error list" where
  "validateCoupletNumber n =
     check_int ''number'' (Some 1) (Some 1330) ''Couplet number must be between 1 and 1330'' (Some n)"

definition validatePagination :: "string option \<Rightarrow> string option \<Rightarrow> validation_error list" where
  "validatePagination page_param limit_param =
     check_int ''page'' (Some 1) None ''Page must be a positive integer'' page_param
     @ check_int ''limit'' (Some 1) (Some 100) ''Limit must be between 1 and 100'' limit_param"

definition validateFilters ::
  "string option \<Rightarrow> string option \<Rightarrow> string option \<Rightarrow> validation_error list" where
  "validateFilters chapter_param section_param division_param =
     check_int ''chapter'' (Some 1) (Some 133) ''Chapter must be between 1 and 133'' chapter_param
     @ check_int ''section'' (Some 1) (Some 9) ''Section must be between 1 and 9'' section_param
     @ check_int ''division'' (Some 1) (Some 3) ''Division must be between 1 and 3'' division_param"

text \<open>
  The translators chain: the value is split at commas, trimmed and freed of empty
  strings, and must then be a non-empty list of IDs matching \<^verbatim>\<open>/^[a-z0-9_]+$/\<close>.
\<close>

definition translator_id_pattern :: "string \<Rightarrow> bool" where
  "translator_id_pattern t =
     (t \<noteq> [] \<and> list_all (\<lambda>c. c \<in> set ''abcdefghijklmnopqrstuvwxyz0123456789_'') t)"

definition validateTranslators :: "string option \<Rightarrow> validation_error list" where
  "validateTranslators v =
     (case v of
        None \<Rightarrow> []
      | Some s \<Rightarrow>
          (let value = filter (\<lambda>t. length t > 0) (map trim (split CHR '','' s))
           in if length value = 0
              then [\<lparr>field = ''translators'',
                     message = ''Translators must be a comma-separated list'',
                     val = JArray (map JString value)\<rparr>]
              else if \<not> list_all translator_id_pattern value
              then [\<lparr>field = ''translators'',
                     message = ''Invalid translator ID format. Use lowercase alphanumeric characters only'',
                     val = JArray (map JString value)\<rparr>]
              else []))"

text \<open>The search chain: the trimmed term has 2 to 100 characters.\<close>

definition validateSearch :: "string option \<Rightarrow> validation_error list" where
  "validateSearch v =
     (case v of
        None \<Rightarrow> []
      | Some s \<Rightarrow>
          (let t = trim s
           in if 2 \<le> length t \<and> length t \<le> 100 then []
              else [\<lparr>field = ''q'',
                     message = ''Search query must be between 2 and 100 characters'',
                     val = JString t\<rparr>]))"

text \<open>
  The document schema's \<^verbatim>\<open>Joi.number().integer().min(lo).max(hi).required()\<close> on an
  integer field of a source couplet; \<^verbatim>\<open>None\<close> is a missing field.
\<close>

definition joi_integer_required :: "int \<Rightarrow> int \<Rightarrow> int option \<Rightarrow> bool" where
  "joi_integer_required lo hi v = (case v of None \<Rightarrow> False | Some n \<Rightarrow> lo \<le> n \<and> n \<le> hi)"

definition schema_number :: "int option \<Rightarrow> bool" where
  "schema_number = joi_integer_required 1 1330"

definition schema_division_number :: "int option \<Rightarrow> bool" where
  "schema_division_number = joi_integer_required 1 3"

definition schema_section_number :: "int option \<Rightarrow> bool" where
  "schema_section_number = joi_integer_required 1 133"

definition schema_chapter_number :: "int option \<Rightarrow> bool" where
  "schema_chapter_number = joi_integer_required 1 133"

section \<open>The document store\<close>

text \<open>
  The store is the list of its documents, in the order \<^verbatim>\<open>find\<close> returns them. A query
  is an object from keys to values: a number (equality), a regular expression, or under
  \<^verbatim>\<open>$or\<close> an array of queries. A regular expression is held as its
  \<^verbatim>\<open>test\<close> function on strings.
\<close>

datatype qvalue = QNumber int | QRegExp "string \<Rightarrow> bool" | QQueries "(string \<times> qvalue) list list"

type_synonym query = "(string \<times> qvalue) list"

text \<open>
  The store's \<^verbatim>\<open>getDotValue(obj, field)\<close> on a couplet document, for the dotted
  paths of its modelled fields: a path that runs through an array gives the array of
  the values below it, and a path through a missing property gives undefined.
\<close>

definition getDotValue :: "couplet \<Rightarrow> string \<Rightarrow> jsvalue" where
  "getDotValue obj fld =
     (if fld = ''number'' then JNumber (number obj)
      else if fld = ''tamil'' then JArray (map JString (tamil obj))
      else if fld = ''division.number'' then JNumber (division_number obj)
      else if fld = ''section.number'' then JNumber (section_number obj)
      else if fld = ''chapter.number'' then JNumber (chapter_number obj)
      else if fld = ''translations.en.text'' then
        (case translations' obj of
           None \<Rightarrow> JUndefined
         | Some entries \<Rightarrow>
             (case map_of entries ''en'' of
                None \<Rightarrow> JUndefined
              | Some ts \<Rightarrow> JArray (map (\<lambda>t. JString (text' t)) ts)))
      else if fld = ''translations.en.explanation'' then
        (case translations' obj of
           None \<Rightarrow> JUndefined
         | Some entries \<Rightarrow>
             (case map_of entries ''en'' of
                None \<Rightarrow> JUndefined
              | Some ts \<Rightarrow>
                  JArray (map (\<lambda>t. case explanation t of None \<Rightarrow> JUndefined
                                                          | Some e \<Rightarrow> JString e) ts)))
      else if fld = ''tamil_interpretations.text'' then
        (case tamil_interpretations obj of
           None \<Rightarrow> JUndefined
         | Some interps \<Rightarrow> JArray (map (\<lambda>t. JString (text' t)) interps))
      else JUndefined)"

text \<open>
  The store's \<^verbatim>\<open>matchQueryPart\<close>: an array value matches when one of its elements
  does; a regular expression matches a string it tests true on and nothing else; a
  number matches the same number.
\<close>

fun matchValue :: "jsvalue \<Rightarrow> qvalue \<Rightarrow> bool" where
  "matchValue (JArray vs) qv = list_ex (\<lambda>v. matchValue v qv) vs"
| "matchValue (JString s) (QRegExp test) = test s"
| "matchValue (JNumber n) (QNumber m) = (n = m)"
| "matchValue _ _ = False"

text \<open>
  The store's \<^verbatim>\<open>match(obj, query)\<close>: every key of the query must hold, and
  \<^verbatim>\<open>$or\<close> holds when one of its queries matches.
\<close>

fun match :: "couplet \<Rightarrow> query \<Rightarrow> bool"
  and match_key :: "couplet \<Rightarrow> string \<Rightarrow> qvalue \<Rightarrow> bool"
  and match_some :: "couplet \<Rightarrow> query list \<Rightarrow> bool" where
  "match obj [] = True"
| "match obj ((k, v) # rest) = (match_key obj k v \<and> match obj rest)"
| "match_key obj k (QQueries qs) = (k = ''$or'' \<and> match_some obj qs)"
| "match_key obj k (QNumber n) = matchValue (getDotValue obj k) (QNumber n)"
| "match_key obj k (QRegExp test) = matchValue (getDotValue obj k) (QRegExp test)"
| "match_some obj [] = False"
| "match_some obj (q # qs) = (match obj q \<or> match_some obj qs)"

definition db_find :: "couplet list \<Rightarrow> query \<Rightarrow> couplet list" where
  "db_find db query = filter (\<lambda>doc. match doc query) db"

definition db_count :: "couplet list \<Rightarrow> query \<Rightarrow> int" where
  "db_count db query = int (length (filter (\<lambda>doc. match doc query) db))"

definition db_findOne :: "couplet list \<Rightarrow> query \<Rightarrow> couplet option" where
  "db_findOne db query = find (\<lambda>doc. match doc query) db"

section \<open>The couplet routes\<close>

text \<open>
  The query object as a handler reads it: each parameter a string, or absent (a
  parameter a validator has turned into a number reads the same under
  \<^verbatim>\<open>parseInt\<close>). The fields \<open>chapter'\<close> and \<open>section'\<close> are the parameters
  \<^verbatim>\<open>chapter\<close> and \<^verbatim>\<open>section\<close>.
\<close>

record list_query =
  page :: "string option"
  limit :: "string option"
  translators :: "string option"

record search_query = list_query +
  q :: "string option"
  division :: "string option"
  section' :: "string option"
  chapter' :: "string option"

text \<open>
  The \<^verbatim>\<open>pagination\<close> block of a reply; \<open>total\<close> is \<^verbatim>\<open>totalCouplets\<close> of
  the list route and \<^verbatim>\<open>totalResults\<close> of the search route. The \<^verbatim>\<open>filters\<close>
  block of a search reply echoes the request.
\<close>

record pagination =
  currentPage :: int
  totalPages :: int
  total :: int
  hasNext :: bool
  hasPrev :: bool

record filters =
  filter_division :: "int option"
  filter_chapter :: "int option"
  filter_section :: "int option"
  filter_searchTerm :: "string option"
  filter_translators :: "string list option"

datatype js_error = SyntaxError | TypeError

text \<open>
  What a route answers: a page of the list route, a page of the search route, one couplet
  (all with status 200 and \<^verbatim>\<open>success: true\<close>), a failure
  \<^verbatim>\<open>res.status(n).json({success: false, error, details})\<close>, or an exception handed
  to \<^verbatim>\<open>next\<close>.
\<close>

datatype reply =
    Couplets "couplet list" pagination
  | Search_results "couplet list" pagination filters
  | Found couplet
  | Failure nat string "validation_error list option"
  | Next js_error

text \<open>\<^verbatim>\<open>req.query.translators ? req.query.translators.split(',').map(t => t.trim()) : []\<close>\<close>

definition requested_translators :: "string option \<Rightarrow> string list" where
  "requested_translators v =
     (case v of None \<Rightarrow> [] | Some s \<Rightarrow> if s = [] then [] else map trim (split CHR '','' s))"

text \<open>
  \<^verbatim>\<open>parseInt(req.query.page) || 1\<close>, \<^verbatim>\<open>parseInt(req.query.limit) || 10\<close> and
  \<^verbatim>\<open>(page - 1) * limit\<close>.
\<close>

definition requested_page :: "'a list_query_scheme \<Rightarrow> int" where
  "requested_page query = or_default (parseInt (page query)) 1"

definition requested_limit :: "'a list_query_scheme \<Rightarrow> int" where
  "requested_limit query = or_default (parseInt (limit query)) 10"

definition requested_skip :: "'a list_query_scheme \<Rightarrow> int" where
  "requested_skip query = (requested_page query - 1) * requested_limit query"

text \<open>\<^verbatim>\<open>Math.ceil(total / limit)\<close>\<close>

definition Math_ceil_quotient :: "int \<Rightarrow> int \<Rightarrow> int" where
  "Math_ceil_quotient a b = \<lceil>real_of_int a / real_of_int b\<rceil>"

definition by_number :: "couplet \<Rightarrow> couplet \<Rightarrow> int" where
  "by_number a b = number a - number b"

text \<open>The handler of \<^verbatim>\<open>GET /\<close>: all couplets, paginated.\<close>

definition list_couplets :: "couplet list \<Rightarrow> list_query \<Rightarrow> reply" where
  "list_couplets db query =
     (let page_no = requested_page query;
          limit_no = requested_limit query;
          skip = requested_skip query;
          ids = requested_translators (translators query);
          couplets = db_find db [];
          couplets = js_slice (js_sort by_number couplets) skip (skip + limit_no);
          couplets = (if length ids > 0
                      then map (\<lambda>c. filterTranslations c (Some ids)) couplets
                      else couplets);
          total = db_count db []
      in Couplets couplets
           \<lparr>currentPage = page_no,
            totalPages = Math_ceil_quotient total limit_no,
            total = total,
            hasNext = (skip + limit_no < total),
            hasPrev = (page_no > 1)\<rparr>)"

text \<open>
  \<^verbatim>\<open>handleValidationErrors\<close> closes each validator: with errors it answers 400
  itself, without it calls the next middleware.
\<close>

definition handleValidationErrors :: "validation_error list \<Rightarrow> reply \<Rightarrow> reply" where
  "handleValidationErrors errors next =
     (if errors \<noteq> [] then Failure 400 ''Validation failed'' (Some errors) else next)"

text \<open>
  The handler of \<^verbatim>\<open>GET /:number\<close>, and the route: the number's validator, the
  translators' validator, then the handler.
\<close>

definition get_couplet :: "couplet list \<Rightarrow> string \<Rightarrow> string option \<Rightarrow> reply" where
  "get_couplet db number_param translators_param =
     (let coupletNumber = parseInt (Some number_param);
          ids = requested_translators translators_param
      in case (case coupletNumber of
                 None \<Rightarrow> None
               | Some n \<Rightarrow> db_findOne db [(''number'', QNumber n)]) of
           None \<Rightarrow> Failure 404 ''Couplet not found'' None
         | Some couplet \<Rightarrow>
             Found (if length ids > 0 then filterTranslations couplet (Some ids) else couplet))"

definition couplet_route :: "couplet list \<Rightarrow> string \<Rightarrow> string option \<Rightarrow> reply" where
  "couplet_route db number_param translators_param =
     handleValidationErrors (validateCoupletNumber number_param)
       (handleValidationErrors (validateTranslators translators_param)
          (get_couplet db number_param translators_param))"

text \<open>
  The handler of \<^verbatim>\<open>GET /search\<close>. Its first argument is the regular expression
  engine, \<^verbatim>\<open>new RegExp(term, 'i')\<close>: the \<^verbatim>\<open>test\<close> function of the compiled
  pattern, or \<^verbatim>\<open>None\<close> when the constructor throws a syntax error. A filter that
  is absent, empty, not a number or zero adds no key to the query.
\<close>

definition optional_number :: "string option \<Rightarrow> int option" where
  "optional_number v = (case v of None \<Rightarrow> None | Some s \<Rightarrow> if s = [] then None else parseInt (Some s))"

definition search_term :: "search_query \<Rightarrow> string option" where
  "search_term query = map_option toLowerCase (q query)"

definition add_filter :: "string \<Rightarrow> int option \<Rightarrow> query \<Rightarrow> query" where
  "add_filter key v query =
     (case v of
        None \<Rightarrow> query
      | Some n \<Rightarrow> if n = 0 then query else AList.update key (QNumber n) query)"

definition build_query ::
  "(string \<Rightarrow> (string \<Rightarrow> bool) option) \<Rightarrow> search_query \<Rightarrow> js_error + query" where
  "build_query RegExp_i query =
     (let searchTerm = search_term query;
          chapterNumber = optional_number (chapter' query);
          sectionNumber = optional_number (section' query);
          divisionNumber = optional_number (division query);
          with_term =
            (case searchTerm of
               None \<Rightarrow> Inr []
             | Some term \<Rightarrow>
                 if term = [] then Inr []
                 else (case RegExp_i term of
                         None \<Rightarrow> Inl SyntaxError
                       | Some test \<Rightarrow>
                           Inr (AList.update ''$or''
                                  (QQueries [[(''tamil'', QRegExp test)],
                                             [(''translations.en.text'', QRegExp test)],
                                             [(''translations.en.explanation'', QRegExp test)],
                                             [(''tamil_interpretations.text'', QRegExp test)]]) [])))
      in case with_term of
           Inl e \<Rightarrow> Inl e
         | Inr query0 \<Rightarrow>
             Inr (add_filter ''division.number'' divisionNumber
                   (add_filter ''section.number'' sectionNumber
                     (add_filter ''chapter.number'' chapterNumber query0))))"

definition search_couplets ::
  "(string \<Rightarrow> (string \<Rightarrow> bool) option) \<Rightarrow> couplet list \<Rightarrow> search_query \<Rightarrow> reply" where
  "search_couplets RegExp_i db query =
     (let searchTerm = search_term query;
          page_no = requested_page query;
          limit_no = requested_limit query;
          skip = requested_skip query;
          ids = requested_translators (translators query);
          chapterNumber = optional_number (chapter' query);
          sectionNumber = optional_number (section' query);
          divisionNumber = optional_number (division query)
      in case build_query RegExp_i query of
           Inl e \<Rightarrow> Next e
         | Inr dbquery \<Rightarrow>
             (let allCouplets = db_find db dbquery;
                  total = db_count db dbquery;
                  couplets = js_slice (js_sort by_number allCouplets) skip (skip + limit_no);
                  couplets = (if length ids > 0
                              then map (\<lambda>c. filterTranslations c (Some ids)) couplets
                              else couplets)
              in Search_results couplets
                   \<lparr>currentPage = page_no,
                    totalPages = Math_ceil_quotient total limit_no,
                    total = total,
                    hasNext = (skip + limit_no < total),
                    hasPrev = (page_no > 1)\<rparr>
                   \<lparr>filter_division = divisionNumber,
                    filter_chapter = chapterNumber,
                    filter_section = sectionNumber,
                    filter_searchTerm = searchTerm,
                    filter_translators = (if length ids > 0 then Some ids else None)\<rparr>))"


definition search_route ::
  "(string \<Rightarrow> (string \<Rightarrow> bool) option) \<Rightarrow> couplet list \<Rightarrow> search_query \<Rightarrow> reply" where
  "search_route RegExp_i db query =
     handleValidationErrors (validateSearch (q query))
       (handleValidationErrors (validatePagination (page query) (limit query))
          (handleValidationErrors (validateFilters (chapter' query) (section' query) (division query))
             (handleValidationErrors (validateTranslators (translators query))
                (search_couplets RegExp_i db query))))"

section \<open>The translator directory\<close>

text \<open>
  One directory entry \<^verbatim>\<open>{id, name, year, language, type}\<close>, its fields prefixed
  with \<open>tr\<close>.
\<close>

record translator =
  tr_id :: string
  tr_name :: string
  tr_year :: "int option"
  tr_language :: string
  tr_type :: string

text \<open>
  \<^verbatim>\<open>translatorsMap\<close> is an object with the keys \<^verbatim>\<open>en\<close>, \<^verbatim>\<open>hi\<close> and
  \<^verbatim>\<open>ta\<close>, each a \<^verbatim>\<open>Map\<close> from ID to entry that keeps the order of insertion.
  Reading it at another language gives undefined, and calling \<^verbatim>\<open>has\<close> on that
  throws a type error. A record whose author is empty is passed over before the map is
  read.
\<close>

type_synonym translators_map = "(string \<times> (string \<times> translator) list) list"

definition empty_translatorsMap :: translators_map where
  "empty_translatorsMap = [(''en'', []), (''hi'', []), (''ta'', [])]"

definition register ::
  "string \<Rightarrow> string \<Rightarrow> translators_map \<Rightarrow> translation \<Rightarrow> js_error + translators_map" where
  "register language type translatorsMap t =
     (if author t = [] then Inr translatorsMap
      else
        let ident = normalizeId (author t)
        in case map_of translatorsMap language of
             None \<Rightarrow> Inl TypeError
           | Some known \<Rightarrow>
               if map_of known ident \<noteq> None then Inr translatorsMap
               else Inr (AList.update language
                           (known @ [(ident, \<lparr>tr_id = ident, tr_name = author t, tr_year = year t,
                                               tr_language = language, tr_type = type\<rparr>)])
                           translatorsMap))"

text \<open>\<^verbatim>\<open>forEach\<close> with a body that may throw: the first exception ends the loop.\<close>

fun forEach :: "('s \<Rightarrow> 'a \<Rightarrow> 'e + 's) \<Rightarrow> 'a list \<Rightarrow> 's \<Rightarrow> 'e + 's" where
  "forEach body [] s = Inr s"
| "forEach body (x # xs) s = (case body s x of Inl e \<Rightarrow> Inl e | Inr s' \<Rightarrow> forEach body xs s')"

definition collect_translations :: "translators_map \<Rightarrow> couplet \<Rightarrow> js_error + translators_map" where
  "collect_translations translatorsMap couplet =
     (case translations' couplet of
        None \<Rightarrow> Inr translatorsMap
      | Some entries \<Rightarrow>
          forEach (\<lambda>m (language, ts). forEach (register language ''translation'') ts m)
            entries translatorsMap)"

definition collect_interpretations :: "translators_map \<Rightarrow> couplet \<Rightarrow> js_error + translators_map" where
  "collect_interpretations translatorsMap couplet =
     (case tamil_interpretations couplet of
        None \<Rightarrow> Inr translatorsMap
      | Some interps \<Rightarrow> forEach (register ''ta'' ''commentary'') interps translatorsMap)"

definition collect_couplet :: "translators_map \<Rightarrow> couplet \<Rightarrow> js_error + translators_map" where
  "collect_couplet translatorsMap couplet =
     (case collect_translations translatorsMap couplet of
        Inl e \<Rightarrow> Inl e
      | Inr m \<Rightarrow> collect_interpretations m couplet)"

text \<open>
  The comparator \<^verbatim>\<open>(a, b) => a.year - b.year\<close>: with a year missing the difference
  is NaN, which the sort reads as 0.
\<close>

definition by_year :: "translator \<Rightarrow> translator \<Rightarrow> int" where
  "by_year a b = (case (tr_year a, tr_year b) of (Some x, Some y) \<Rightarrow> x - y | _ \<Rightarrow> 0)"

definition map_values :: "translators_map \<Rightarrow> string \<Rightarrow> translator list" where
  "map_values translatorsMap language =
     (case map_of translatorsMap language of None \<Rightarrow> [] | Some known \<Rightarrow> map snd known)"

text \<open>
  The handler of \<^verbatim>\<open>GET /translators\<close>. The reply's \<^verbatim>\<open>translators\<close> object is
  the list of its languages, each with its entries; \<^verbatim>\<open>Inl\<close> is an exception handed
  to \<^verbatim>\<open>next\<close>.
\<close>

definition get_translators ::
  "couplet list \<Rightarrow> string option \<Rightarrow> js_error + (string \<times> translator list) list" where
  "get_translators db lang =
     (if length db = 0 then Inr [(''en'', []), (''hi'', []), (''ta'', [])]
      else
        case forEach collect_couplet db empty_translatorsMap of
          Inl e \<Rightarrow> Inl e
        | Inr translatorsMap \<Rightarrow>
            (let result = [(''en'', js_sort by_year (map_values translatorsMap ''en'')),
                           (''hi'', js_sort by_year (map_values translatorsMap ''hi'')),
                           (''ta'', js_sort by_year (map_values translatorsMap ''ta''))]
             in case lang of
                  None \<Rightarrow> Inr result
                | Some l \<Rightarrow>
                    if l \<noteq> [] \<and> l \<in> set [''en'', ''hi'', ''ta'']
                    then Inr [(l, case map_of result l of None \<Rightarrow> [] | Some entries \<Rightarrow> entries)]
                    else Inr result))"

section \<open>Reading a reply\<close>

definition reply_couplets :: "reply \<Rightarrow> couplet list option" where
  "reply_couplets r =
     (case r of Couplets cs _ \<Rightarrow> Some cs | Search_results cs _ _ \<Rightarrow> Some cs | _ \<Rightarrow> None)"


text \<open>
  What the projection leaves of a \<^verbatim>\<open>translations\<close> object: every list filtered by
  the allow-list, and the languages whose list came out empty dropped.
\<close>

definition project_entries ::
  "string list \<Rightarrow> (string \<times> translation list) list \<Rightarrow> (string \<times> translation list) list" where
  "project_entries ids entries =
     filter (\<lambda>(lang, ts). ts \<noteq> [])
       (map (\<lambda>(lang, ts). (lang, filter (author_allowed ids) ts)) entries)"

text \<open>The keys of a JavaScript object are distinct.\<close>

definition object_keys_distinct :: "couplet \<Rightarrow> bool" where
  "object_keys_distinct c =
     (case translations' c of None \<Rightarrow> True | Some entries \<Rightarrow> distinct (map fst entries))"

section \<open>A small corpus\<close>

definition pope :: translation where
  "pope = \<lparr>text' = ''A, as its first of letters, every speech maintains'',
           explanation = Some ''As the letter A is the first of all letters'',
           author = ''G. U. Pope'', year = Some 1886\<rparr>"

definition ellis :: translation where
  "ellis = \<lparr>text' = ''As ranked in every alphabet the first'',
            explanation = None, author = ''F. W. Ellis'', year = Some 1812\<rparr>"

definition pope_again :: translation where
  "pope_again = \<lparr>text' = ''True Friendship hastens to the rescue'',
                 explanation = Some [], author = ''G.U. POPE'', year = Some 1890\<rparr>"

definition hindi :: translation where
  "hindi = \<lparr>text' = ''akshar'', explanation = None, author = ''Venkatakrishnan'',
            year = Some 1998\<rparr>"

definition parimel :: translation where
  "parimel = \<lparr>text' = ''ezhuththu ellaam'', explanation = None, author = ''Parimelazhagar'',
              year = Some 1272\<rparr>"

definition couplet1 :: couplet where
  "couplet1 = \<lparr>number = 1, tamil = [''agara mudhala'', ''bhagavan mudhatre ulagu''],
               division_number = 1, section_number = 1, chapter_number = 1,
               translations' = Some [(''en'', [pope, ellis]), (''hi'', [hindi])],
               tamil_interpretations = Some [parimel]\<rparr>"

definition couplet3 :: couplet where
  "couplet3 = \<lparr>number = 3, tamil = [''malarmisai'', ''nilamisai''],
               division_number = 1, section_number = 1, chapter_number = 1,
               translations' = Some [(''en'', [pope_again])],
               tamil_interpretations = Some []\<rparr>"

definition couplet5 :: couplet where
  "couplet5 = \<lparr>number = 5, tamil = [''irulser'', ''porulser''],
               division_number = 1, section_number = 1, chapter_number = 2,
               translations' = Some [], tamil_interpretations = None\<rparr>"

definition corpus :: "couplet list" where
  "corpus = [couplet5, couplet1, couplet3]"

section \<open>The page a request asks for\<close>


section \<open>Sample requests\<close>

text \<open>
  A regular expression engine for the examples: on a term without metacharacters
  \<^verbatim>\<open>new RegExp(term, 'i').test(s)\<close> says whether the term occurs in \<open>s\<close>, letter
  case ignored.
\<close>

fun is_prefix :: "string \<Rightarrow> string \<Rightarrow> bool" where
  "is_prefix [] s = True"
| "is_prefix (c # cs) [] = False"
| "is_prefix (c # cs) (d # ds) = (c = d \<and> is_prefix cs ds)"

fun occurs_in :: "string \<Rightarrow> string \<Rightarrow> bool" where
  "occurs_in t [] = (t = [])"
| "occurs_in t (c # cs) = (is_prefix t (c # cs) \<or> occurs_in t cs)"

definition literal_RegExp_i :: "string \<Rightarrow> (string \<Rightarrow> bool) option" where
  "literal_RegExp_i term = Some (\<lambda>s. occurs_in (toLowerCase term) (toLowerCase s))"






definition section_ten :: search_query where
  "section_ten =
     \<lparr>page = None, limit = None, translators = None,
      q = None, division = None, section' = Some ''10'', chapter' = None\<rparr>"

section \<open>The search predicate in the specification's words\<close>


definition interpretations :: "couplet \<Rightarrow> translation list" where
  "interpretations doc = (case tamil_interpretations doc of None \<Rightarrow> [] | Some interps \<Rightarrow> interps)"




section \<open>The directory in the specification's words\<close>

text \<open>
  The records of the corpus in the order the handler meets them: document by document,
  the translations language by language under type \<^verbatim>\<open>translation\<close>, then the
  interpretations under language \<^verbatim>\<open>ta\<close> and type \<^verbatim>\<open>commentary\<close>. The
  candidates of a language are the entries its records with an author would give, in
  that order; the directory keeps the first candidate of each ID.
\<close>

definition directory_entry :: "string \<Rightarrow> string \<Rightarrow> translation \<Rightarrow> translator" where
  "directory_entry language type t =
     \<lparr>tr_id = normalizeId (author t), tr_name = author t, tr_year = year t,
      tr_language = language, tr_type = type\<rparr>"

definition couplet_records :: "couplet \<Rightarrow> (string \<times> string \<times> translation) list" where
  "couplet_records c =
     concat (map (\<lambda>(language, ts). map (\<lambda>t. (language, ''translation'', t)) ts)
               (case translations' c of None \<Rightarrow> [] | Some entries \<Rightarrow> entries))
     @ map (\<lambda>t. (''ta'', ''commentary'', t)) (interpretations c)"

definition corpus_records :: "couplet list \<Rightarrow> (string \<times> string \<times> translation) list" where
  "corpus_records db = concat (map couplet_records db)"

definition candidates_in :: "string \<Rightarrow> (string \<times> string \<times> translation) list \<Rightarrow> translator list" where
  "candidates_in language records =
     map (\<lambda>(l, type, t). directory_entry l type t)
       (filter (\<lambda>(l, type, t). l = language \<and> author t \<noteq> []) records)"

definition candidates :: "string \<Rightarrow> couplet list \<Rightarrow> translator list" where
  "candidates language db = candidates_in language (corpus_records db)"

text \<open>
  The data the directory is built for: every record with an author stands under one of
  the three languages of the directory, and carries a year.
\<close>

definition languages_known :: "couplet list \<Rightarrow> bool" where
  "languages_known db =
     list_all (\<lambda>(l, type, t). author t = [] \<or> l \<in> set [''en'', ''hi'', ''ta''])
       (corpus_records db)"


text \<open>
  The list of one language in a reply or in \<^verbatim>\<open>translatorsMap\<close>; a language that
  is not a key has no entries.
\<close>

definition listing :: "(string \<times> 'a list) list \<Rightarrow> string \<Rightarrow> 'a list" where
  "listing directory language =
     (case map_of directory language of None \<Rightarrow> [] | Some entries \<Rightarrow> entries)"

text \<open>A map from ID to entry filled in order, an ID that is already there left alone.\<close>

definition first_seen :: "(string \<times> translator) list \<Rightarrow> translator list \<Rightarrow> (string \<times> translator) list" where
  "first_seen known entries =
     foldl (\<lambda>known e. if map_of known (tr_id e) \<noteq> None then known
                      else known @ [(tr_id e, e)]) known entries"

text \<open>Ascending by year: every entry carries a year no later than those after it.\<close>

definition ascending_by_year :: "translator list \<Rightarrow> bool" where
  "ascending_by_year entries =
     sorted_wrt (\<lambda>a b. case (tr_year a, tr_year b) of
                          (Some x, Some y) \<Rightarrow> x \<le> y | _ \<Rightarrow> False) entries"

text \<open>The directory of the small corpus.\<close>

definition corpus_directory :: "(string \<times> translator list) list" where
  "corpus_directory =
     [(''en'', [directory_entry ''en'' ''translation'' ellis,
                directory_entry ''en'' ''translation'' pope]),
      (''hi'', [directory_entry ''hi'' ''translation'' hindi]),
      (''ta'', [directory_entry ''ta'' ''commentary'' parimel])]"

section \<open>The translator projection: lemmas\<close>

lemma update_fresh: "k \<notin> fst ` set al \<Longrightarrow> AList.update k v al = al @ [(k, v)]"
  by (induction al) auto

lemma fst_project_entries: "fst ` set (project_entries ids entries) \<subseteq> fst ` set entries"
  by (force simp: project_entries_def)

lemma foldl_filterTranslations:
  "distinct (map fst entries) \<Longrightarrow> fst ` set acc \<inter> fst ` set entries = {} \<Longrightarrow>
   foldl (\<lambda>filteredTranslations (lang, ts).
            let langFiltered = filter (author_allowed ids) ts
            in if langFiltered \<noteq> []
               then AList.update lang langFiltered filteredTranslations
               else filteredTranslations) acc entries
   = acc @ project_entries ids entries"
proof (induction entries arbitrary: acc)
  case Nil
  then show ?case by (simp add: project_entries_def)
next
  case (Cons e entries)
  obtain lang ts where e: "e = (lang, ts)" by (cases e)
  have fresh: "lang \<notin> fst ` set acc" using Cons.prems(2) e by auto
  show ?case
  proof (cases "filter (author_allowed ids) ts = []")
    case True
    have "fst ` set acc \<inter> fst ` set entries = {}" using Cons.prems(2) by auto
    with Cons.IH[of acc] Cons.prems(1) True e show ?thesis
      by (simp add: project_entries_def)
  next
    case False
    have d: "fst ` set (acc @ [(lang, filter (author_allowed ids) ts)]) \<inter> fst ` set entries = {}"
      using Cons.prems e by auto
    from Cons.IH[OF _ d] Cons.prems(1) False e fresh show ?thesis
      by (simp add: project_entries_def update_fresh Let_def)
  qed
qed

lemma map_of_project_entries:
  "distinct (map fst entries) \<Longrightarrow>
   map_of (project_entries ids entries) lang =
     (case map_of entries lang of
        None \<Rightarrow> None
      | Some ts \<Rightarrow> if filter (author_allowed ids) ts = [] then None
                  else Some (filter (author_allowed ids) ts))"
proof (induction entries)
  case Nil
  then show ?case by (simp add: project_entries_def)
next
  case (Cons e entries)
  obtain l ts where e: "e = (l, ts)" by (cases e)
  have notin: "l \<notin> fst ` set (project_entries ids entries)"
    using Cons.prems e fst_project_entries[of ids entries] by auto
  then have none: "map_of (project_entries ids entries) l = None"
    by (simp add: map_of_eq_None_iff)
  have step: "project_entries ids ((l, ts) # entries) =
      (if filter (author_allowed ids) ts = [] then project_entries ids entries
       else (l, filter (author_allowed ids) ts) # project_entries ids entries)"
    by (simp add: project_entries_def)
  have IH: "map_of (project_entries ids entries) lang =
     (case map_of entries lang of
        None \<Rightarrow> None
      | Some ts \<Rightarrow> if filter (author_allowed ids) ts = [] then None
                  else Some (filter (author_allowed ids) ts))"
    using Cons by simp
  show ?case
  proof (cases "lang = l")
    case True
    then show ?thesis using none by (simp add: step e)
  next
    case False
    then show ?thesis using IH by (simp add: step e)
  qed
qed

lemma filterTranslations_Some:
  assumes "ids \<noteq> []" and "object_keys_distinct c"
  shows "filterTranslations c (Some ids) =
     c\<lparr>translations' := map_option (project_entries ids) (translations' c),
       tamil_interpretations := map_option (filter (author_allowed ids)) (tamil_interpretations c)\<rparr>"
  using assms
  by (cases "translations' c"; cases "tamil_interpretations c")
     (simp_all add: filterTranslations_def foldl_filterTranslations object_keys_distinct_def)

lemma requested_translators_update [simp]:
  "requested_page (query\<lparr>translators := v\<rparr>) = requested_page query"
  "requested_limit (query\<lparr>translators := v\<rparr>) = requested_limit query"
  "requested_skip (query\<lparr>translators := v\<rparr>) = requested_skip query"
  by (simp_all add: requested_page_def requested_limit_def requested_skip_def)

lemma build_query_translators [simp]:
  "build_query R (squery\<lparr>translators := v\<rparr>) = build_query R squery"
  by (simp add: build_query_def search_term_def)

section \<open>Properties of the translator projection\<close>

text \<open>
  Claim C5. For a couplet document and a non-empty allow-list of translator IDs, the
  projected document's \<^verbatim>\<open>translations\<close> object holds exactly the languages whose
  list, filtered to the authors whose normalized ID is in the allow-list, is not empty,
  each with that filtered list and in the old order; \<^verbatim>\<open>tamil_interpretations\<close> is
  filtered by the same test; every other field is as it was.
\<close>

theorem filterTranslations_keeps_allowed_authors:
  assumes "ids \<noteq> []" and "object_keys_distinct c"
  shows "translations' (filterTranslations c (Some ids))
           = map_option (project_entries ids) (translations' c)
       \<and> (\<forall>entries lang. translations' c = Some entries \<longrightarrow>
            map_of (the (translations' (filterTranslations c (Some ids)))) lang =
              (case map_of entries lang of
                 None \<Rightarrow> None
               | Some ts \<Rightarrow>
                   if filter (author_allowed ids) ts = [] then None
                   else Some (filter (author_allowed ids) ts)))
       \<and> tamil_interpretations (filterTranslations c (Some ids))
           = map_option (filter (author_allowed ids)) (tamil_interpretations c)
       \<and> number (filterTranslations c (Some ids)) = number c
       \<and> tamil (filterTranslations c (Some ids)) = tamil c
       \<and> division_number (filterTranslations c (Some ids)) = division_number c
       \<and> section_number (filterTranslations c (Some ids)) = section_number c
       \<and> chapter_number (filterTranslations c (Some ids)) = chapter_number c"
proof -
  have eq: "filterTranslations c (Some ids) =
     c\<lparr>translations' := map_option (project_entries ids) (translations' c),
       tamil_interpretations := map_option (filter (author_allowed ids)) (tamil_interpretations c)\<rparr>"
    using assms by (rule filterTranslations_Some)
  have m: "\<And>entries lang. translations' c = Some entries \<Longrightarrow>
      map_of (project_entries ids entries) lang =
        (case map_of entries lang of
           None \<Rightarrow> None
         | Some ts \<Rightarrow> if filter (author_allowed ids) ts = [] then None
                     else Some (filter (author_allowed ids) ts))"
    using assms(2) by (intro map_of_project_entries) (simp add: object_keys_distinct_def)
  show ?thesis
    unfolding eq using m by simp
qed

lemma couplet1_keys_distinct: "object_keys_distinct couplet1"
  by code_simp

lemma couplet1_projected: "map_option (project_entries [''gupope'']) (translations' couplet1) = Some [(''en'', [pope])]"
  by code_simp

lemma couplet1_interpretations_projected: "map_option (filter (author_allowed [''gupope''])) (tamil_interpretations couplet1) = Some []"
  by code_simp

theorem filterTranslations_keeps_allowed_authors_witness:
  "[''gupope''] \<noteq> [] \<and> object_keys_distinct couplet1
   \<and> translations' (filterTranslations couplet1 (Some [''gupope''])) = Some [(''en'', [pope])]
   \<and> tamil_interpretations (filterTranslations couplet1 (Some [''gupope''])) = Some []"
  using filterTranslations_keeps_allowed_authors [of "[''gupope'']" couplet1] couplet1_keys_distinct couplet1_projected couplet1_interpretations_projected
  by simp

text \<open>
  Claim C10. With an absent or an empty list of translator IDs the projection returns
  the document unchanged, and a list or search request without a
  \<^verbatim>\<open>translators\<close> parameter answers the documents of its page as they are stored.
\<close>

theorem filterTranslations_without_ids:
  "filterTranslations c None = c
   \<and> filterTranslations c (Some []) = c
   \<and> reply_couplets (list_couplets db (query\<lparr>translators := None\<rparr>))
       = Some (js_slice (js_sort by_number (db_find db []))
                 (requested_skip query) (requested_skip query + requested_limit query))
   \<and> reply_couplets (search_couplets R db (squery\<lparr>translators := None\<rparr>))
       = (case build_query R squery of
            Inl e \<Rightarrow> None
          | Inr dbquery \<Rightarrow>
              Some (js_slice (js_sort by_number (db_find db dbquery))
                      (requested_skip squery) (requested_skip squery + requested_limit squery)))"
  by (simp add: filterTranslations_def list_couplets_def search_couplets_def reply_couplets_def
      requested_translators_def Let_def split: sum.splits)

theorem filterTranslations_without_ids_witness:
  "filterTranslations couplet1 None = couplet1
   \<and> filterTranslations couplet1 (Some []) = couplet1"
  using filterTranslations_without_ids [of couplet1 corpus "\<lparr>page = None, limit = None, translators = None\<rparr>"]
  by simp

section \<open>Numbers in query strings: lemmas\<close>

lemma digit_not_whitespace: "is_digit c \<Longrightarrow> \<not> js_whitespace c"
  by (auto simp: is_digit_def js_whitespace_def)

lemma digit_not_x: "is_digit c \<Longrightarrow> c \<noteq> CHR ''x'' \<and> c \<noteq> CHR ''X''"
  by (auto simp: is_digit_def)

lemma parse_magnitude_digits:
  assumes "ds \<noteq> []" and "list_all is_digit ds"
  shows "parse_magnitude ds = Some (digits_value 10 ds)"
proof -
  have tw: "takeWhile is_digit ds = ds"
    using assms(2) by (simp add: list_all_iff)
  have nohex: "take 2 ds \<noteq> ''0x'' \<and> take 2 ds \<noteq> ''0X''"
  proof (cases ds)
    case Nil
    then show ?thesis by simp
  next
    case (Cons a as)
    show ?thesis
    proof (cases as)
      case Nil
      with Cons show ?thesis by simp
    next
      case (Cons b bs)
      with \<open>ds = a # as\<close> assms(2) have "is_digit b" by simp
      with Cons \<open>ds = a # as\<close> digit_not_x[of b] show ?thesis by auto
    qed
  qed
  show ?thesis using nohex assms(1) by (simp add: parse_magnitude_def tw)
qed

lemma parseInt_int_pattern:
  assumes "int_pattern s"
  shows "parseInt (Some s) = Some (to_number s)"
proof (cases s)
  case Nil
  with assms show ?thesis by (simp add: int_pattern_def)
next
  case (Cons c cs)
  show ?thesis
  proof (cases "c = CHR ''-'' \<or> c = CHR ''+''")
    case True
    with assms Cons have cs: "cs \<noteq> []" "list_all is_digit cs"
      by (auto simp: int_pattern_def)
    have nw: "\<not> js_whitespace c" using True by (auto simp: js_whitespace_def)
    from True show ?thesis
      using parse_magnitude_digits[OF cs] nw Cons
      by (auto simp: parseInt_def to_number_def)
  next
    case False
    with assms Cons have ds: "list_all is_digit (c # cs)"
      by (auto simp: int_pattern_def)
    then have nw: "\<not> js_whitespace c" using digit_not_whitespace[of c] by simp
    have "parse_magnitude (c # cs) = Some (digits_value 10 (c # cs))"
      using parse_magnitude_digits[of "c # cs"] ds by simp
    with False nw Cons show ?thesis
      by (simp add: parseInt_def to_number_def)
  qed
qed

lemma isInt_parseInt:
  "isInt lo hi s \<Longrightarrow> parseInt (Some s) = Some (to_number s)"
  by (simp add: isInt_def parseInt_int_pattern)


section \<open>The store and the page: lemmas\<close>

lemma match_number: "match doc [(''number'', QNumber n)] = (number doc = n)"
  by (simp add: getDotValue_def)

lemma db_findOne_number_None:
  "db_findOne db [(''number'', QNumber n)] = None \<longleftrightarrow> n \<notin> number ` set db"
  unfolding db_findOne_def match_number by (auto simp: find_None_iff)

lemma db_findOne_number_Some:
  "db_findOne db [(''number'', QNumber n)] = Some c \<Longrightarrow> c \<in> set db \<and> number c = n"
  unfolding db_findOne_def match_number by (auto simp: find_Some_iff)

lemma validateCoupletNumber_Nil:
  "validateCoupletNumber n = [] \<longleftrightarrow> isInt (Some 1) (Some 1330) n"
  by (simp add: validateCoupletNumber_def check_int_def)

lemma validateCoupletNumber_1331:
  "validateCoupletNumber ''1331'' =
     [\<lparr>field = ''number'', message = ''Couplet number must be between 1 and 1330'',
       val = JString ''1331''\<rparr>]"
  by code_simp

lemma section_errors:
  "filter (\<lambda>e. field e = ''section'') (validateFilters c sec d) =
     check_int ''section'' (Some 1) (Some 9) ''Section must be between 1 and 9'' sec"
  by (simp add: validateFilters_def check_int_def split: option.splits)





lemma db_find_all [simp]: "db_find db [] = db"
  by (simp add: db_find_def)

lemma db_count_all [simp]: "db_count db [] = int (length db)"
  by (simp add: db_count_def)

lemma number_filterTranslations [simp]: "number (filterTranslations c ids) = number c"
  by (simp add: filterTranslations_def Let_def split: option.splits)













section \<open>The sample corpus: evaluations\<close>

lemma corpus_numbers: "number ` set corpus = {5, 1, 3}"
  by (simp add: corpus_def couplet1_def couplet3_def couplet5_def)

lemma validate_2: "validateCoupletNumber ''2'' = []" by code_simp

lemma to_number_2: "to_number ''2'' = 2" by code_simp

lemma sections_1_to_9:
  "list_all (\<lambda>c. validateFilters None (Some [c]) None = []) ''123456789''"
  by code_simp

lemma section_ten_valid:
  "validateSearch (q section_ten) = []"
  "validatePagination (page section_ten) (limit section_ten) = []"
  by code_simp+

lemma ten_refused: "\<not> (int_pattern ''10'' \<and> 1 \<le> to_number ''10'' \<and> to_number ''10'' \<le> 9)"
  by code_simp

lemma ten_errors:
  "validateFilters None (Some ''10'') None =
     [\<lparr>field = ''section'', message = ''Section must be between 1 and 9'', val = JString ''10''\<rparr>]"
  by code_simp








section \<open>Properties of the couplet routes\<close>



text \<open>
  Claim C8, as the code has it. A request for couplet 1331 is refused by the number's
  validator, which admits 1 to 1330: the route answers 400 with
  \<^verbatim>\<open>{success: false, error: 'Validation failed', details: [...]}\<close>. The answer 404
  with \<^verbatim>\<open>{success: false, error: 'Couplet not found'}\<close> is what a number within
  1 to 1330 gets when no stored document carries it.
\<close>

theorem couplet_1331_is_refused:
  "couplet_route db ''1331'' translators_param =
     Failure 400 ''Validation failed''
       (Some [\<lparr>field = ''number'', message = ''Couplet number must be between 1 and 1330'',
               val = JString ''1331''\<rparr>])
   \<and> (validateCoupletNumber n = [] \<longrightarrow> validateTranslators translators_param = [] \<longrightarrow>
        to_number n \<notin> number ` set db \<longrightarrow>
        1 \<le> to_number n \<and> to_number n \<le> 1330
        \<and> couplet_route db n translators_param = Failure 404 ''Couplet not found'' None)"
proof (intro conjI impI)
  show "couplet_route db ''1331'' translators_param =
     Failure 400 ''Validation failed''
       (Some [\<lparr>field = ''number'', message = ''Couplet number must be between 1 and 1330'',
               val = JString ''1331''\<rparr>])"
    by (simp add: couplet_route_def handleValidationErrors_def validateCoupletNumber_1331)
next
  assume v: "validateCoupletNumber n = []"
  then have i: "isInt (Some 1) (Some 1330) n" by (simp add: validateCoupletNumber_Nil)
  then show "1 \<le> to_number n" "to_number n \<le> 1330" by (simp_all add: isInt_def)
  assume t: "validateTranslators translators_param = []"
    and absent: "to_number n \<notin> number ` set db"
  have p: "parseInt (Some n) = Some (to_number n)" using i by (rule isInt_parseInt)
  have "db_findOne db [(''number'', QNumber (to_number n))] = None"
    using absent by (simp add: db_findOne_number_None)
  then show "couplet_route db n translators_param = Failure 404 ''Couplet not found'' None"
    using v t p by (simp add: couplet_route_def handleValidationErrors_def get_couplet_def)
qed

theorem couplet_1331_is_refused_witness:
  "validateCoupletNumber ''2'' = [] \<and> validateTranslators None = []
   \<and> to_number ''2'' \<notin> number ` set corpus
   \<and> couplet_route corpus ''2'' None = Failure 404 ''Couplet not found'' None
   \<and> couplet_route corpus ''1331'' None =
       Failure 400 ''Validation failed''
         (Some [\<lparr>field = ''number'', message = ''Couplet number must be between 1 and 1330'',
                 val = JString ''1331''\<rparr>])"
  using couplet_1331_is_refused [of corpus None "''2''"] validate_2 to_number_2 corpus_numbers
  by (simp add: validateTranslators_def)

text \<open>
  The claim as the specification words it, 404 for couplet 1331, fails on the sample
  corpus: the route answers 400.
\<close>

theorem couplet_1331_is_not_404:
  "couplet_route corpus ''1331'' None =
     Failure 400 ''Validation failed''
       (Some [\<lparr>field = ''number'', message = ''Couplet number must be between 1 and 1330'',
               val = JString ''1331''\<rparr>])
   \<and> couplet_route corpus ''1331'' None \<noteq> Failure 404 ''Couplet not found'' None"
  by (simp add: couplet_route_def handleValidationErrors_def validateCoupletNumber_1331)

text \<open>
  Claim C9. The two range checks on the section disagree: the search route's validator
  lets a section filter pass exactly when it is an integer from 1 to 9 and refuses any
  other value with a validation error, so that the search route answers 400
  \<^verbatim>\<open>Validation failed\<close> once the earlier validators have passed; the document
  schema admits section numbers, and chapter numbers, from 1 to 133. Section 10 is one
  the schema admits and the validator refuses.
\<close>

theorem section_bounds_disagree:
  "(filter (\<lambda>e. field e = ''section'') (validateFilters c (Some s) d) = []
      \<longleftrightarrow> int_pattern s \<and> 1 \<le> to_number s \<and> to_number s \<le> 9)
   \<and> (\<not> (int_pattern s \<and> 1 \<le> to_number s \<and> to_number s \<le> 9) \<longrightarrow>
        \<lparr>field = ''section'', message = ''Section must be between 1 and 9'', val = JString s\<rparr>
          \<in> set (validateFilters c (Some s) d)
        \<and> handleValidationErrors (validateFilters c (Some s) d) next_handler
            = Failure 400 ''Validation failed'' (Some (validateFilters c (Some s) d)))
   \<and> (validateSearch (q query) = [] \<longrightarrow> validatePagination (page query) (limit query) = [] \<longrightarrow>
        section' query = Some s \<longrightarrow>
        \<not> (int_pattern s \<and> 1 \<le> to_number s \<and> to_number s \<le> 9) \<longrightarrow>
        search_route RegExp_i db query
          = Failure 400 ''Validation failed''
              (Some (validateFilters (chapter' query) (section' query) (division query))))
   \<and> (schema_section_number v \<longleftrightarrow> (\<exists>n. v = Some n \<and> 1 \<le> n \<and> n \<le> 133))
   \<and> (schema_chapter_number v \<longleftrightarrow> (\<exists>n. v = Some n \<and> 1 \<le> n \<and> n \<le> 133))
   \<and> schema_section_number (Some (to_number ''10''))
   \<and> validateFilters None (Some ''10'') None \<noteq> []"
proof -
  have a: "filter (\<lambda>e. field e = ''section'') (validateFilters c (Some s) d) = []
      \<longleftrightarrow> int_pattern s \<and> 1 \<le> to_number s \<and> to_number s \<le> 9"
    unfolding section_errors by (simp add: check_int_def isInt_def)
  have b: "\<And>c d. \<not> (int_pattern s \<and> 1 \<le> to_number s \<and> to_number s \<le> 9) \<Longrightarrow>
        \<lparr>field = ''section'', message = ''Section must be between 1 and 9'', val = JString s\<rparr>
          \<in> set (validateFilters c (Some s) d)"
  proof -
    fix c d
    assume "\<not> (int_pattern s \<and> 1 \<le> to_number s \<and> to_number s \<le> 9)"
    then have "check_int ''section'' (Some 1) (Some 9) ''Section must be between 1 and 9'' (Some s)
        = [\<lparr>field = ''section'', message = ''Section must be between 1 and 9'', val = JString s\<rparr>]"
      by (simp add: check_int_def isInt_def)
    then show "\<lparr>field = ''section'', message = ''Section must be between 1 and 9'', val = JString s\<rparr>
          \<in> set (validateFilters c (Some s) d)"
      by (simp add: validateFilters_def)
  qed
  have b': "\<And>c d next_handler.
        \<not> (int_pattern s \<and> 1 \<le> to_number s \<and> to_number s \<le> 9) \<Longrightarrow>
        handleValidationErrors (validateFilters c (Some s) d) next_handler
            = Failure 400 ''Validation failed'' (Some (validateFilters c (Some s) d))"
  proof -
    fix c d next_handler
    assume "\<not> (int_pattern s \<and> 1 \<le> to_number s \<and> to_number s \<le> 9)"
    from b[OF this, of c d] have "validateFilters c (Some s) d \<noteq> []"
      by (cases "validateFilters c (Some s) d") simp_all
    then show "handleValidationErrors (validateFilters c (Some s) d) next_handler
            = Failure 400 ''Validation failed'' (Some (validateFilters c (Some s) d))"
      by (simp add: handleValidationErrors_def)
  qed
  have r: "validateSearch (q query) = [] \<Longrightarrow> validatePagination (page query) (limit query) = [] \<Longrightarrow>
        section' query = Some s \<Longrightarrow>
        \<not> (int_pattern s \<and> 1 \<le> to_number s \<and> to_number s \<le> 9) \<Longrightarrow>
        search_route RegExp_i db query
          = Failure 400 ''Validation failed''
              (Some (validateFilters (chapter' query) (section' query) (division query)))"
  proof -
    assume v: "validateSearch (q query) = []" "validatePagination (page query) (limit query) = []"
      and s: "section' query = Some s"
      and n: "\<not> (int_pattern s \<and> 1 \<le> to_number s \<and> to_number s \<le> 9)"
    have "search_route RegExp_i db query
        = handleValidationErrors (validateFilters (chapter' query) (Some s) (division query))
            (handleValidationErrors (validateTranslators (translators query))
               (search_couplets RegExp_i db query))"
      using v s by (simp add: search_route_def handleValidationErrors_def)
    then show ?thesis using b'[OF n] s by simp
  qed
  have c: "schema_section_number v \<longleftrightarrow> (\<exists>n. v = Some n \<and> 1 \<le> n \<and> n \<le> 133)"
    by (simp add: schema_section_number_def joi_integer_required_def split: option.splits)
  have d: "schema_chapter_number v \<longleftrightarrow> (\<exists>n. v = Some n \<and> 1 \<le> n \<and> n \<le> 133)"
    by (simp add: schema_chapter_number_def joi_integer_required_def split: option.splits)
  have e: "schema_section_number (Some (to_number ''10''))" by code_simp
  have f: "validateFilters None (Some ''10'') None \<noteq> []" by code_simp
  show ?thesis
    using a b[of c d] b'[of c d next_handler] r c d e f by (intro conjI impI) blast+
qed

theorem section_bounds_disagree_witness:
  "\<not> (int_pattern ''10'' \<and> 1 \<le> to_number ''10'' \<and> to_number ''10'' \<le> 9)
   \<and> validateSearch (q section_ten) = []
   \<and> validatePagination (page section_ten) (limit section_ten) = []
   \<and> section' section_ten = Some ''10''
   \<and> search_route literal_RegExp_i corpus section_ten
       = Failure 400 ''Validation failed''
           (Some [\<lparr>field = ''section'', message = ''Section must be between 1 and 9'',
                   val = JString ''10''\<rparr>])
   \<and> schema_section_number (Some 10)
   \<and> list_all (\<lambda>c. validateFilters None (Some [c]) None = []) ''123456789''"
  using section_bounds_disagree [where c = None and s = "''10''" and d = None
      and query = section_ten and RegExp_i = literal_RegExp_i and db = corpus and v = "Some 10"]
    ten_refused ten_errors sections_1_to_9 section_ten_valid
  by (simp add: section_ten_def)

section \<open>The pagination block: lemmas\<close>









section \<open>Properties of the pagination block\<close>




section \<open>Translators and pagination: lemmas\<close>

lemma requested_translators_None [simp]: "requested_translators None = []"
  by (simp add: requested_translators_def)










section \<open>Translator filtering touches content only\<close>



section \<open>The search query: lemmas\<close>

























lemma is_prefix_iff: "is_prefix t s \<longleftrightarrow> (\<exists>post. s = t @ post)"
  by (induction t s rule: is_prefix.induct) auto

lemma occurs_in_iff: "occurs_in t s \<longleftrightarrow> (\<exists>pre post. s = pre @ t @ post)"
proof (induction s)
  case Nil
  then show ?case by auto
next
  case (Cons c cs)
  show ?case
  proof
    assume "occurs_in t (c # cs)"
    then consider "is_prefix t (c # cs)" | "occurs_in t cs" by auto
    then show "\<exists>pre post. c # cs = pre @ t @ post"
    proof cases
      case 1
      then obtain post where "c # cs = t @ post" using is_prefix_iff by blast
      then have "c # cs = [] @ t @ post" by simp
      then show ?thesis by blast
    next
      case 2
      then obtain pre post where "cs = pre @ t @ post" using Cons.IH by blast
      then have "c # cs = (c # pre) @ t @ post" by simp
      then show ?thesis by blast
    qed
  next
    assume "\<exists>pre post. c # cs = pre @ t @ post"
    then obtain pre post where e: "c # cs = pre @ t @ post" by blast
    show "occurs_in t (c # cs)"
    proof (cases pre)
      case Nil
      with e have "is_prefix t (c # cs)" using is_prefix_iff by auto
      then show ?thesis by simp
    next
      case (Cons p ps)
      with e have "cs = ps @ t @ post" by simp
      then have "occurs_in t cs" using Cons.IH by blast
      then show ?thesis by simp
    qed
  qed
qed

lemma literal_RegExp_i_test:
  "literal_RegExp_i pat = Some test \<Longrightarrow>
   test s \<longleftrightarrow> (\<exists>pre post. toLowerCase s = pre @ toLowerCase pat @ post)"
  by (auto simp: literal_RegExp_i_def occurs_in_iff)

section \<open>The search query and the specification's predicate\<close>



section \<open>The translator directory: lemmas\<close>

lemma forEach_append:
  "forEach f (xs @ ys) s = (case forEach f xs s of Inl e \<Rightarrow> Inl e | Inr s' \<Rightarrow> forEach f ys s')"
  by (induction xs arbitrary: s) (auto split: sum.splits)

lemma forEach_map: "forEach f (map g xs) s = forEach (\<lambda>s x. f s (g x)) xs s"
  by (induction xs arbitrary: s) (auto split: sum.splits)

lemma forEach_languages:
  "forEach (\<lambda>m (language, ts). forEach (register language type) ts m) entries m
     = forEach (\<lambda>m (l, ty, t). register l ty m t)
         (concat (map (\<lambda>(language, ts). map (\<lambda>t. (language, type, t)) ts) entries)) m"
proof (induction entries arbitrary: m)
  case Nil
  then show ?case by simp
next
  case (Cons e entries)
  obtain language ts where e: "e = (language, ts)" by (cases e)
  have one: "forEach (\<lambda>m (l, ty, t). register l ty m t) (map (\<lambda>t. (language, type, t)) ts) m
      = forEach (register language type) ts m"
    by (simp add: forEach_map)
  show ?case
    by (simp add: e forEach_append one Cons.IH split: sum.splits)
qed

lemma collect_couplet_records:
  "collect_couplet m c = forEach (\<lambda>m (l, ty, t). register l ty m t) (couplet_records c) m"
proof -
  have tr: "collect_translations m c
      = forEach (\<lambda>m (l, ty, t). register l ty m t)
          (concat (map (\<lambda>(language, ts). map (\<lambda>t. (language, ''translation'', t)) ts)
                    (case translations' c of None \<Rightarrow> [] | Some entries \<Rightarrow> entries))) m"
    by (cases "translations' c") (simp_all add: collect_translations_def forEach_languages)
  have ip: "\<And>m'. collect_interpretations m' c
      = forEach (\<lambda>m (l, ty, t). register l ty m t)
          (map (\<lambda>t. (''ta'', ''commentary'', t)) (interpretations c)) m'"
    by (cases "tamil_interpretations c")
       (simp_all add: collect_interpretations_def interpretations_def forEach_map)
  show ?thesis
    by (simp add: collect_couplet_def couplet_records_def forEach_append tr ip
        split: sum.splits)
qed

lemma forEach_collect_couplet:
  "forEach collect_couplet db m
     = forEach (\<lambda>m (l, ty, t). register l ty m t) (corpus_records db) m"
  by (induction db arbitrary: m)
     (simp_all add: corpus_records_def forEach_append collect_couplet_records split: sum.splits)

lemma listing_update:
  assumes "l \<in> fst ` set m"
  shows "listing (AList.update l v m) L = (if L = l then v else listing m L)"
  by (simp add: listing_def update_conv')

lemma keys_update:
  assumes "l \<in> fst ` set m"
  shows "map fst (AList.update l v m) = map fst m"
  using assms by (simp add: update_keys)

lemma map_of_known_language:
  assumes "map fst m = [''en'', ''hi'', ''ta'']" and "l \<in> set [''en'', ''hi'', ''ta'']"
  shows "map_of m l = Some (listing m l)"
proof -
  have "l \<in> fst ` set m" using assms by (metis list.set_map)
  then obtain v where "map_of m l = Some v"
    by (metis domD dom_map_of_conv_image_fst)
  then show ?thesis by (simp add: listing_def)
qed

lemma map_of_unknown_language:
  assumes "map fst m = [''en'', ''hi'', ''ta'']" and "l \<notin> set [''en'', ''hi'', ''ta'']"
  shows "map_of m l = None"
proof -
  have "l \<notin> fst ` set m" using assms by (metis list.set_map)
  then show ?thesis by (simp add: map_of_eq_None_iff)
qed

lemma register_known:
  assumes "map fst m = [''en'', ''hi'', ''ta'']"
    and "author t = [] \<or> l \<in> set [''en'', ''hi'', ''ta'']"
  shows "\<exists>m'. register l ty m t = Inr m' \<and> map fst m' = [''en'', ''hi'', ''ta'']
     \<and> (\<forall>L. listing m' L
            = (if L = l \<and> author t \<noteq> [] then first_seen (listing m L) [directory_entry l ty t]
               else listing m L))"
proof (cases "author t = []")
  case True
  then show ?thesis using assms(1) by (simp add: register_def)
next
  case False
  with assms(2) have l: "l \<in> set [''en'', ''hi'', ''ta'']" by simp
  have k: "l \<in> fst ` set m" using assms(1) l by (metis list.set_map)
  note mo = map_of_known_language[OF assms(1) l]
  show ?thesis
  proof (cases "map_of (listing m l) (normalizeId (author t))")
    case None
    then show ?thesis
      using False mo assms(1) keys_update[OF k] listing_update[OF k]
      by (simp add: register_def Let_def first_seen_def directory_entry_def)
  next
    case (Some e)
    then show ?thesis
      using False mo assms(1)
      by (simp add: register_def Let_def first_seen_def directory_entry_def)
  qed
qed

lemma register_unknown:
  assumes "map fst m = [''en'', ''hi'', ''ta'']" and "author t \<noteq> []"
    and "l \<notin> set [''en'', ''hi'', ''ta'']"
  shows "register l ty m t = Inl TypeError"
  using map_of_unknown_language[OF assms(1,3)] assms(2) by (simp add: register_def Let_def)

lemma first_seen_append:
  "first_seen known (xs @ ys) = first_seen (first_seen known xs) ys"
  by (simp add: first_seen_def)

lemma first_seen_Nil [simp]: "first_seen known [] = known"
  by (simp add: first_seen_def)

lemma first_seen_Cons:
  "first_seen known (e # es) = first_seen (first_seen known [e]) es"
  by (simp add: first_seen_def)

lemma candidates_in_Cons:
  "candidates_in L ((l, ty, t) # rs)
     = (if l = L \<and> author t \<noteq> [] then [directory_entry l ty t] else []) @ candidates_in L rs"
  by (simp add: candidates_in_def)

lemma forEach_register:
  assumes "map fst m = [''en'', ''hi'', ''ta'']"
    and "list_all (\<lambda>(l, ty, t). author t = [] \<or> l \<in> set [''en'', ''hi'', ''ta'']) rs"
  shows "\<exists>m'. forEach (\<lambda>m (l, ty, t). register l ty m t) rs m = Inr m'
     \<and> map fst m' = [''en'', ''hi'', ''ta'']
     \<and> (\<forall>L. listing m' L = first_seen (listing m L) (candidates_in L rs))"
  using assms
proof (induction rs arbitrary: m)
  case Nil
  then show ?case by (simp add: candidates_in_def)
next
  case (Cons r rs)
  obtain l ty t where r: "r = (l, ty, t)" by (cases r)
  from Cons.prems r have ok: "author t = [] \<or> l \<in> set [''en'', ''hi'', ''ta'']"
    and rest: "list_all (\<lambda>(l, ty, t). author t = [] \<or> l \<in> set [''en'', ''hi'', ''ta'']) rs"
    by simp_all
  from register_known[OF Cons.prems(1) ok, of ty]
  obtain m1 where m1: "register l ty m t = Inr m1" "map fst m1 = [''en'', ''hi'', ''ta'']"
    and l1: "\<forall>L. listing m1 L
            = (if L = l \<and> author t \<noteq> [] then first_seen (listing m L) [directory_entry l ty t]
               else listing m L)"
    by (elim exE conjE)
  from Cons.IH[OF m1(2) rest]
  obtain m' where m': "forEach (\<lambda>m (l, ty, t). register l ty m t) rs m1 = Inr m'"
      "map fst m' = [''en'', ''hi'', ''ta'']"
    and l': "\<forall>L. listing m' L = first_seen (listing m1 L) (candidates_in L rs)"
    by (elim exE conjE)
  have "\<And>L. listing m' L = first_seen (listing m L) (candidates_in L (r # rs))"
  proof -
    fix L
    show "listing m' L = first_seen (listing m L) (candidates_in L (r # rs))"
      unfolding r candidates_in_Cons first_seen_append l'[rule_format] l1[rule_format]
      by (cases "L = l \<and> author t \<noteq> []") auto
  qed
  with m1 m' show ?case by (simp add: r)
qed

lemma map_of_first_seen:
  "map_of (first_seen known es) k
     = (case map_of known k of Some e \<Rightarrow> Some e | None \<Rightarrow> find (\<lambda>e. tr_id e = k) es)"
proof (induction es arbitrary: known)
  case Nil
  then show ?case by (simp split: option.splits)
next
  case (Cons e es)
  have step: "first_seen known (e # es)
      = first_seen (if map_of known (tr_id e) \<noteq> None then known else known @ [(tr_id e, e)]) es"
    by (simp add: first_seen_def)
  show ?case
    unfolding step Cons.IH
    by (auto simp: map_add_def split: option.splits)
qed

lemma keyed_first_seen:
  assumes "\<forall>(k, e) \<in> set known. tr_id e = k"
  shows "\<forall>(k, e) \<in> set (first_seen known es). tr_id e = k"
  using assms
proof (induction es arbitrary: known)
  case Nil
  then show ?case by simp
next
  case (Cons e es)
  have step: "first_seen known (e # es)
      = first_seen (if map_of known (tr_id e) \<noteq> None then known else known @ [(tr_id e, e)]) es"
    by (simp add: first_seen_def)
  show ?case unfolding step using Cons.prems by (intro Cons.IH) auto
qed

lemma distinct_first_seen:
  assumes "distinct (map fst known)"
  shows "distinct (map fst (first_seen known es))"
  using assms
proof (induction es arbitrary: known)
  case Nil
  then show ?case by simp
next
  case (Cons e es)
  have step: "first_seen known (e # es)
      = first_seen (if map_of known (tr_id e) \<noteq> None then known else known @ [(tr_id e, e)]) es"
    by (simp add: first_seen_def)
  show ?case unfolding step using Cons.prems
    by (intro Cons.IH) (auto simp: map_of_eq_None_iff)
qed


lemma find_values_keyed:
  assumes "\<forall>(k, e) \<in> set known. tr_id e = k"
  shows "find (\<lambda>e. tr_id e = k) (map snd known) = map_of known k"
  using assms by (induction known) auto

lemma mset_js_insert: "mset (js_insert cmp x ys) = add_mset x (mset ys)"
  by (induction ys) simp_all

lemma mset_js_sort: "mset (js_sort cmp xs) = mset xs"
  by (induction xs) (simp_all add: js_sort_def mset_js_insert)

lemma set_js_sort: "set (js_sort cmp xs) = set xs"
  using mset_js_sort[of cmp xs] by (metis set_mset_mset)

lemma find_unique:
  assumes "inj_on f (set xs)" and "e \<in> set xs"
  shows "find (\<lambda>x. f x = f e) xs = Some e"
  using assms
proof (induction xs)
  case Nil
  then show ?case by simp
next
  case (Cons x xs)
  show ?case
  proof (cases "f x = f e")
    case True
    then have "x = e" using Cons.prems by (auto simp: inj_on_def)
    with True show ?thesis by simp
  next
    case False
    then have "e \<in> set xs" using Cons.prems by auto
    moreover have "inj_on f (set xs)" using Cons.prems by (auto simp: inj_on_def)
    ultimately show ?thesis using Cons.IH False by simp
  qed
qed

lemma find_same_set:
  assumes "inj_on f (set xs)" and "set ys = set xs"
  shows "find (\<lambda>x. f x = k) ys = find (\<lambda>x. f x = k) xs"
proof (cases "\<exists>e \<in> set xs. f e = k")
  case True
  then obtain e where e: "e \<in> set xs" "f e = k" by blast
  have "find (\<lambda>x. f x = f e) xs = Some e" using assms(1) e(1) by (rule find_unique)
  moreover have "find (\<lambda>x. f x = f e) ys = Some e"
    using assms e(1) by (intro find_unique) simp_all
  ultimately show ?thesis using e(2) by simp
next
  case False
  then have "find (\<lambda>x. f x = k) xs = None" by (auto simp: find_None_iff)
  moreover have "find (\<lambda>x. f x = k) ys = None" using False assms(2) by (auto simp: find_None_iff)
  ultimately show ?thesis by simp
qed



lemma listing_empty_translatorsMap: "listing empty_translatorsMap L = []"
  by (simp add: listing_def empty_translatorsMap_def)

lemma map_values_listing: "map_values m L = map snd (listing m L)"
  by (simp add: map_values_def listing_def split: option.splits)

lemma listing_three:
  assumes "L \<in> set [''en'', ''hi'', ''ta'']"
  shows "listing [(''en'', a), (''hi'', b), (''ta'', c)] L
     = (if L = ''en'' then a else if L = ''hi'' then b else c)"
  using assms by (auto simp: listing_def)

lemma get_translators_all:
  assumes "languages_known db"
  shows "\<exists>directory. get_translators db None = Inr directory
     \<and> map fst directory = [''en'', ''hi'', ''ta'']
     \<and> (\<forall>L \<in> set [''en'', ''hi'', ''ta''].
           listing directory L = js_sort by_year (map snd (first_seen [] (candidates L db))))"
proof -
  have wf: "map fst empty_translatorsMap = [''en'', ''hi'', ''ta'']"
    by (simp add: empty_translatorsMap_def)
  from forEach_register[OF wf assms[unfolded languages_known_def]]
  obtain m where m: "forEach collect_couplet db empty_translatorsMap = Inr m"
    and lm: "\<forall>L. listing m L = first_seen [] (candidates L db)"
    unfolding forEach_collect_couplet candidates_def listing_empty_translatorsMap
    by (elim exE conjE)
  let ?d = "[(''en'', js_sort by_year (map_values m ''en'')),
             (''hi'', js_sort by_year (map_values m ''hi'')),
             (''ta'', js_sort by_year (map_values m ''ta''))]"
  have vals: "\<And>L. js_sort by_year (map_values m L)
      = js_sort by_year (map snd (first_seen [] (candidates L db)))"
    by (simp add: map_values_listing lm)
  have g: "get_translators db None = Inr ?d"
  proof (cases "db = []")
    case True
    then have "m = empty_translatorsMap" using m by simp
    then show ?thesis using True
      by (simp add: get_translators_def map_values_def empty_translatorsMap_def js_sort_def)
  next
    case False
    then show ?thesis using m by (simp add: get_translators_def Let_def)
  qed
  have "\<forall>L \<in> set [''en'', ''hi'', ''ta''].
           listing ?d L = js_sort by_year (map snd (first_seen [] (candidates L db)))"
    using vals by (auto simp: listing_def)
  with g show ?thesis by (intro exI[of _ ?d]) simp
qed

lemma get_translators_one:
  assumes "L \<in> set [''en'', ''hi'', ''ta'']" and "get_translators db None = Inr directory"
    and "db \<noteq> []"
  shows "get_translators db (Some L) = Inr [(L, listing directory L)]"
proof -
  have L: "L \<noteq> []" using assms(1) by auto
  show ?thesis
    using assms L
    by (auto simp: get_translators_def listing_def Let_def split: sum.splits)
qed

lemma keyed_Nil: "\<forall>(k, e) \<in> set ([] :: (string \<times> translator) list). tr_id e = k"
  by simp

lemma first_seen_ids:
  "map tr_id (map snd (first_seen [] cs)) = map fst (first_seen [] cs)"
  using keyed_first_seen[OF keyed_Nil, of cs] by (induction "first_seen [] cs") auto

lemma distinct_directory_ids:
  "distinct (map tr_id (js_sort by_year (map snd (first_seen [] cs))))"
proof -
  have "distinct (map fst (first_seen [] cs))" by (rule distinct_first_seen) simp
  then have d: "distinct (map tr_id (map snd (first_seen [] cs)))"
    by (simp only: first_seen_ids)
  have "mset (map tr_id (js_sort by_year (map snd (first_seen [] cs))))
      = mset (map tr_id (map snd (first_seen [] cs)))"
    by (simp only: mset_map mset_js_sort)
  then show ?thesis using d by (metis mset_eq_imp_distinct_iff)
qed

lemma find_directory:
  "find (\<lambda>e. tr_id e = k) (js_sort by_year (map snd (first_seen [] cs)))
     = find (\<lambda>e. tr_id e = k) cs"
proof -
  have "distinct (map tr_id (map snd (first_seen [] cs)))"
    using distinct_first_seen[of "[]" cs] by (simp only: first_seen_ids) simp
  then have inj: "inj_on tr_id (set (map snd (first_seen [] cs)))"
    by (simp only: distinct_map)
  have "find (\<lambda>e. tr_id e = k) (js_sort by_year (map snd (first_seen [] cs)))
      = find (\<lambda>e. tr_id e = k) (map snd (first_seen [] cs))"
    using inj by (rule find_same_set) (rule set_js_sort)
  also have "\<dots> = map_of (first_seen [] cs) k"
    by (rule find_values_keyed) (rule keyed_first_seen[OF keyed_Nil])
  also have "\<dots> = find (\<lambda>e. tr_id e = k) cs"
    by (simp add: map_of_first_seen)
  finally show ?thesis .
qed









lemma corpus_languages_known: "languages_known corpus"
  by code_simp


lemma corpus_get_translators: "get_translators corpus None = Inr corpus_directory"
  by code_simp

lemma corpus_candidates_pope:
  "find (\<lambda>e. tr_id e = ''gupope'') (candidates ''en'' corpus)
     = Some \<lparr>tr_id = ''gupope'', tr_name = ''G. U. Pope'', tr_year = Some 1886,
             tr_language = ''en'', tr_type = ''translation''\<rparr>"
  by code_simp

lemma corpus_ids:
  "map tr_id (listing corpus_directory ''en'') = [''fwellis'', ''gupope'']"
  by code_simp



lemma corpus_en_ascending: "ascending_by_year (listing corpus_directory ''en'')"
  by code_simp

section \<open>Properties of the translator directory\<close>

text \<open>
  Claim C6. Over a corpus whose records with an author stand under the languages
  \<^verbatim>\<open>en\<close>, \<^verbatim>\<open>hi\<close> and \<^verbatim>\<open>ta\<close>, the translators handler answers a
  directory in which the IDs of each language's list are distinct, and the entry under
  an ID is the first candidate with that ID in the order the corpus is iterated: two
  author strings of one language that normalize to the same key give one entry, with the
  name and the year of the record met first; later records are dropped.
\<close>

theorem first_author_wins:
  assumes "languages_known db"
  shows "\<exists>directory. get_translators db None = Inr directory
     \<and> map fst directory = [''en'', ''hi'', ''ta'']
     \<and> (\<forall>L \<in> set [''en'', ''hi'', ''ta''].
           distinct (map tr_id (listing directory L))
           \<and> (\<forall>k. find (\<lambda>e. tr_id e = k) (listing directory L)
                    = find (\<lambda>e. tr_id e = k) (candidates L db)))"
proof -
  from get_translators_all[OF assms] obtain directory
    where d: "get_translators db None = Inr directory"
      "map fst directory = [''en'', ''hi'', ''ta'']"
      and l: "\<forall>L \<in> set [''en'', ''hi'', ''ta''].
           listing directory L = js_sort by_year (map snd (first_seen [] (candidates L db)))"
    by (elim exE conjE)
  have "\<forall>L \<in> set [''en'', ''hi'', ''ta''].
           distinct (map tr_id (listing directory L))
           \<and> (\<forall>k. find (\<lambda>e. tr_id e = k) (listing directory L)
                    = find (\<lambda>e. tr_id e = k) (candidates L db))"
  proof
    fix L
    assume "L \<in> set [''en'', ''hi'', ''ta'']"
    with l have eq: "listing directory L
        = js_sort by_year (map snd (first_seen [] (candidates L db)))"
      by blast
    show "distinct (map tr_id (listing directory L))
           \<and> (\<forall>k. find (\<lambda>e. tr_id e = k) (listing directory L)
                    = find (\<lambda>e. tr_id e = k) (candidates L db))"
      unfolding eq by (simp add: distinct_directory_ids find_directory)
  qed
  with d show ?thesis by (intro exI[of _ directory] conjI)
qed

theorem first_author_wins_witness:
  "languages_known corpus
   \<and> normalizeId (author pope) = normalizeId (author pope_again)
   \<and> get_translators corpus None = Inr corpus_directory
   \<and> map tr_id (listing corpus_directory ''en'') = [''fwellis'', ''gupope'']
   \<and> find (\<lambda>e. tr_id e = ''gupope'') (listing corpus_directory ''en'')
       = Some \<lparr>tr_id = ''gupope'', tr_name = ''G. U. Pope'', tr_year = Some 1886,
               tr_language = ''en'', tr_type = ''translation''\<rparr>"
proof -
  from first_author_wins[OF corpus_languages_known] corpus_get_translators
  have "\<forall>L \<in> set [''en'', ''hi'', ''ta''].
           distinct (map tr_id (listing corpus_directory L))
           \<and> (\<forall>k. find (\<lambda>e. tr_id e = k) (listing corpus_directory L)
                    = find (\<lambda>e. tr_id e = k) (candidates L corpus))"
    by auto
  then have "find (\<lambda>e. tr_id e = ''gupope'') (listing corpus_directory ''en'')
      = find (\<lambda>e. tr_id e = ''gupope'') (candidates ''en'' corpus)"
    by simp
  moreover have "normalizeId (author pope) = normalizeId (author pope_again)"
    by code_simp
  ultimately show ?thesis
    using corpus_languages_known corpus_get_translators corpus_candidates_pope corpus_ids
    by simp
qed



end
